theory Spec2Isabelle
  imports
    Complex_Main
    "HOL-Library.Sublist"
    "HOL-Library.Log_Nat"
    "HOL-Library.Char_ord"
    "HOL-Library.List_Lexorder"
    "HOL-Library.Product_Lexorder"
begin

section \<open>The Billboard dashboard: data model\<close>

text \<open>
  \<^verbatim>\<open>main.py\<close> is a Streamlit script. Every interaction re-executes it from the
  top: the CSV is loaded (once, cached), three sidebar widgets deliver the selection,
  one boolean-mask expression derives \<^verbatim>\<open>filtered_data\<close>, and the tabs aggregate
  that table.

  A row of \<^verbatim>\<open>merged_data\<close> is a record of the columns the script computes with.
  The record is extensible: the columns that are only handed to the renderer
  (\<^verbatim>\<open>song\<close>, \<^verbatim>\<open>artist\<close>, \<^verbatim>\<open>peak_position\<close>, \<^verbatim>\<open>bpm\<close>,
  \<^verbatim>\<open>loudness\<close>) live in the extension, and every function below is polymorphic
  in it. A DataFrame is the list of its rows in positional order. Every cell holds a
  value of its column's type; a cell missing from the file, which pandas would read as
  NaN, is not modelled.
\<close>

record row =
  year :: int
  genre_full :: string
  weeks_on_chart :: int
  mood_happy :: string
  gender :: string

subsection \<open>Column operations of the filter expression\<close>

text \<open>
  \<^verbatim>\<open>df['c']\<close> projects a column; \<^verbatim>\<open>s.isin(values)\<close> and \<^verbatim>\<open>s >= m\<close> build
  boolean columns; \<^verbatim>\<open>&\<close> combines two boolean columns position by position;
  \<^verbatim>\<open>df[mask]\<close> keeps the rows at the positions where the mask is true.
\<close>

definition column :: "('r \<Rightarrow> 'a) \<Rightarrow> 'r list \<Rightarrow> 'a list" where
  "column f df = map f df"

definition isin :: "'a list \<Rightarrow> 'a list \<Rightarrow> bool list" where
  "isin s values = map (\<lambda>v. v \<in> set values) s"

definition series_ge :: "int list \<Rightarrow> int \<Rightarrow> bool list" where
  "series_ge s m = map (\<lambda>v. m \<le> v) s"

definition series_and :: "bool list \<Rightarrow> bool list \<Rightarrow> bool list" where
  "series_and a b = map2 (\<and>) a b"

definition getitem_mask :: "'r list \<Rightarrow> bool list \<Rightarrow> 'r list" where
  "getitem_mask df key = map fst (filter snd (zip df key))"

text \<open>Lines 35-39: the filter expression.\<close>

definition filtered_data ::
  "'a row_scheme list \<Rightarrow> int list \<Rightarrow> string list \<Rightarrow> int \<Rightarrow> 'a row_scheme list" where
  "filtered_data merged_data selected_years selected_genres min_weeks =
     getitem_mask merged_data
       (series_and
          (series_and
             (isin (column year merged_data) selected_years)
             (isin (column genre_full merged_data) selected_genres))
          (series_ge (column weeks_on_chart merged_data) min_weeks))"

text \<open>Lines 15-19: the option list of the year multi-select, a literal of the script.\<close>

definition year_options :: "int list" where
  "year_options = [1969, 2019]"

subsection \<open>Double-precision arithmetic\<close>

text \<open>
  pandas and the Vega runtime compute in IEEE-754 binary64. A float is \<open>NaN\<close>, an
  infinity, or \<open>Finite q\<close> with \<open>q\<close> the rational it denotes. \<open>fl64\<close> rounds a
  rational to the nearest number with a 53-bit significand, ties to even:
  \<open>ilog2 q\<close> is the binary exponent \<open>\<lfloor>log\<^sub>2 q\<rfloor>\<close> of a positive \<open>q\<close>, and the
  significand is rounded on the grid of spacing \<open>2 powi (ilog2 q - 52)\<close>.
  Every quotient below has operands that are row counts or sums of an integer column;
  these are taken to be below \<open>2 ^ 53\<close> in absolute value (a table that large fits no
  memory), so they are doubles exactly and no quotient leaves the normal exponent
  range, which is therefore not modelled.
\<close>

datatype pyfloat = Finite rat | PosInf | NegInf | NaN

definition round_half_even :: "rat \<Rightarrow> int" where
  "round_half_even x =
     (let f = \<lfloor>x\<rfloor>; d = x - of_int f
      in if d < 1 / 2 then f else if 1 / 2 < d then f + 1 else if even f then f else f + 1)"

definition ilog2 :: "rat \<Rightarrow> int" where
  "ilog2 q =
     (let (a, b) = quotient_of q; e0 = bitlen a - bitlen b
      in if 2 powi e0 \<le> q then e0 else e0 - 1)"

definition fl64 :: "rat \<Rightarrow> rat" where
  "fl64 q =
     (if q = 0 then 0
      else let u = 2 powi (ilog2 \<bar>q\<bar> - 52)
           in sgn q * of_int (round_half_even (\<bar>q\<bar> / u)) * u)"

text \<open>
  \<^verbatim>\<open>a / b\<close> on two integer-valued doubles, as numpy and JavaScript evaluate it:
  division by zero yields \<open>NaN\<close> or an infinity, never an exception.
\<close>

definition float_div :: "int \<Rightarrow> int \<Rightarrow> pyfloat" where
  "float_div a b =
     (if b = 0 then (if a = 0 then NaN else if 0 < a then PosInf else NegInf)
      else Finite (fl64 (of_int a / of_int b)))"

subsection \<open>pandas: mean, comparison, unique, groupby\<close>

text \<open>
  \<^verbatim>\<open>Series.mean()\<close> (pandas' \<^verbatim>\<open>nanmean\<close>): the sum, accumulated as a double,
  divided by the count when the count is positive, and \<^verbatim>\<open>nan\<close> otherwise.
  A boolean column is summed as 0/1.
\<close>

definition series_mean :: "int list \<Rightarrow> pyfloat" where
  "series_mean s =
     (let count = length s; the_sum = sum_list s
      in if 0 < count then float_div the_sum (int count) else NaN)"

definition series_eq :: "'a list \<Rightarrow> 'a \<Rightarrow> bool list" where
  "series_eq s v = map (\<lambda>x. x = v) s"

definition bool_mean :: "bool list \<Rightarrow> pyfloat" where
  "bool_mean s = series_mean (map (\<lambda>b. if b then 1 else 0) s)"

text \<open>\<^verbatim>\<open>Series.unique()\<close>: the distinct values in order of first appearance.\<close>

definition unique :: "'a list \<Rightarrow> 'a list" where
  "unique s = rev (remdups (rev s))"

text \<open>
  \<^verbatim>\<open>df.groupby(keys)[col].apply(f).reset_index(name=...)\<close>: one output row per
  distinct key value occurring in \<open>df\<close>, in ascending key order (\<^verbatim>\<open>sort=True\<close> is the
  default; a key list sorts lexicographically), holding the key and \<open>f\<close> of the group's
  column.
\<close>

definition groupby_apply ::
  "('r \<Rightarrow> 'k::linorder) \<Rightarrow> ('r \<Rightarrow> 'c) \<Rightarrow> ('c list \<Rightarrow> 'v) \<Rightarrow> 'r list \<Rightarrow> ('k \<times> 'v) list" where
  "groupby_apply key col f df =
     map (\<lambda>k. (k, f (column col (filter (\<lambda>r. key r = k) df))))
         (sort (remdups (column key df)))"

text \<open>Lines 99-104 and 121-126: the proportion of happy songs per year, and per genre and year.\<close>

definition happy_mean :: "string list \<Rightarrow> pyfloat" where
  "happy_mean x = bool_mean (series_eq x ''happy'')"

definition year_stats :: "'a row_scheme list \<Rightarrow> (int \<times> pyfloat) list" where
  "year_stats filtered = groupby_apply year mood_happy happy_mean filtered"

definition genre_stats :: "'a row_scheme list \<Rightarrow> ((string \<times> int) \<times> pyfloat) list" where
  "genre_stats filtered =
     groupby_apply (\<lambda>r. (genre_full r, year r)) mood_happy happy_mean filtered"

subsection \<open>The Vega-Lite transforms of the proportion charts\<close>

text \<open>
  \<^verbatim>\<open>transform_aggregate(count='count()', groupby=[...])\<close> replaces the table by one
  row per distinct group, in order of first appearance, with the group's row count.
  \<^verbatim>\<open>transform_joinaggregate(total='sum(count)', groupby=['year'])\<close> adds to every row
  the sum of \<open>count\<close> over the rows with the same year.
  \<^verbatim>\<open>transform_calculate(proportion='datum.count / datum.total')\<close> adds the quotient.
\<close>

definition transform_aggregate :: "('r \<Rightarrow> 'k) \<Rightarrow> 'r list \<Rightarrow> ('k \<times> nat) list" where
  "transform_aggregate key df =
     map (\<lambda>k. (k, length (filter (\<lambda>r. key r = k) df))) (unique (map key df))"

definition transform_joinaggregate ::
  "('k \<Rightarrow> 'o) \<Rightarrow> ('k \<times> nat) list \<Rightarrow> ('k \<times> nat \<times> nat) list" where
  "transform_joinaggregate outer rows =
     map (\<lambda>(k, c). (k, c, sum_list (map snd (filter (\<lambda>(k', c'). outer k' = outer k) rows))))
         rows"

definition transform_calculate ::
  "('k \<times> nat \<times> nat) list \<Rightarrow> ('k \<times> nat \<times> nat \<times> pyfloat) list" where
  "transform_calculate rows = map (\<lambda>(k, c, t). (k, c, t, float_div (int c) (int t))) rows"

text \<open>Lines 63-70 and 161-168: the rows behind the two proportion charts.\<close>

definition genre_chart ::
  "'a row_scheme list \<Rightarrow> ((int \<times> string) \<times> nat \<times> nat \<times> pyfloat) list" where
  "genre_chart filtered =
     transform_calculate
       (transform_joinaggregate fst
          (transform_aggregate (\<lambda>r. (year r, genre_full r)) filtered))"

definition gender_prop ::
  "'a row_scheme list \<Rightarrow> ((int \<times> string) \<times> nat \<times> nat \<times> pyfloat) list" where
  "gender_prop filtered =
     transform_calculate
       (transform_joinaggregate fst
          (transform_aggregate (\<lambda>r. (year r, gender r)) filtered))"

text \<open>The proportions of one year, as a reader of the chart data collects them.\<close>

definition proportions_of ::
  "int \<Rightarrow> ((int \<times> string) \<times> nat \<times> nat \<times> pyfloat) list \<Rightarrow> pyfloat list" where
  "proportions_of y rows = map (\<lambda>(k, c, t, p). p) (filter (\<lambda>(k, c, t, p). fst k = y) rows)"

subsection \<open>The overview metrics\<close>

text \<open>
  Lines 55-58. \<^verbatim>\<open>f"{avg_weeks:.1f} weeks"\<close> prints a finite double with one decimal,
  rounding its exact value ties-to-even, and prints \<^verbatim>\<open>nan\<close> and \<^verbatim>\<open>inf\<close> by name.
\<close>

definition digit_char :: "nat \<Rightarrow> char" where
  "digit_char d = char_of (48 + d)"

fun show_nat :: "nat \<Rightarrow> string" where
  "show_nat n = (if n < 10 then [digit_char n] else show_nat (n div 10) @ [digit_char (n mod 10)])"

definition format_1f :: "pyfloat \<Rightarrow> string" where
  "format_1f x =
     (case x of
        NaN \<Rightarrow> ''nan''
      | PosInf \<Rightarrow> ''inf''
      | NegInf \<Rightarrow> ''-inf''
      | Finite q \<Rightarrow>
          (let t = nat (round_half_even (\<bar>q\<bar> * 10))
           in (if q < 0 then ''-'' else []) @ show_nat (t div 10) @ ''.'' @ show_nat (t mod 10)))"

definition total_songs :: "'a row_scheme list \<Rightarrow> nat" where
  "total_songs filtered = length filtered"

definition avg_weeks :: "'a row_scheme list \<Rightarrow> pyfloat" where
  "avg_weeks filtered = series_mean (column weeks_on_chart filtered)"

definition avg_weeks_metric :: "'a row_scheme list \<Rightarrow> string" where
  "avg_weeks_metric filtered = format_1f (avg_weeks filtered) @ '' weeks''"

subsection \<open>One execution of the script\<close>

text \<open>
  \<^verbatim>\<open>load_data\<close> is wrapped in \<^verbatim>\<open>st.cache_data\<close>: the first call reads the file and
  stores the table, every later call returns the stored table without reading. The
  file's parsed content is an input of the run; the cache is the state a run inherits
  and hands on.
\<close>

definition load_data ::
  "'a row_scheme list \<Rightarrow> 'a row_scheme list option \<Rightarrow> 'a row_scheme list \<times> 'a row_scheme list option" where
  "load_data csv cache =
     (case cache of None \<Rightarrow> (csv, Some csv) | Some billboard \<Rightarrow> (billboard, Some billboard))"

record selection =
  selected_years :: "int list"
  selected_genres :: "string list"
  min_weeks :: int
  mood_view :: string

text \<open>Line 23: the genre options are read off the data; line 17: the year options are not.\<close>

definition genre_options :: "'a row_scheme list \<Rightarrow> string list" where
  "genre_options merged_data = unique (column genre_full merged_data)"

text \<open>
  Line 30: \<^verbatim>\<open>int(merged_data['weeks_on_chart'].max())\<close>. The maximum of an empty
  column is \<^verbatim>\<open>nan\<close> (here \<open>None\<close>), and \<^verbatim>\<open>int(nan)\<close> raises \<^verbatim>\<open>ValueError\<close>.
\<close>

datatype error = ValueError

definition series_max :: "int list \<Rightarrow> int option" where
  "series_max s = (case s of [] \<Rightarrow> None | v # vs \<Rightarrow> Some (fold max vs v))"

definition slider_max_value :: "'a row_scheme list \<Rightarrow> error + int" where
  "slider_max_value merged_data =
     (case series_max (column weeks_on_chart merged_data) of
        None \<Rightarrow> Inl ValueError
      | Some v \<Rightarrow> Inr v)"

text \<open>What the sidebar offers: the three option domains of lines 15-32.\<close>

definition sidebar_options ::
  "'a row_scheme list \<Rightarrow> int list \<times> string list \<times> (error + int)" where
  "sidebar_options merged_data =
     (year_options, genre_options merged_data, slider_max_value merged_data)"

datatype mood_table =
  Year_Stats "(int \<times> pyfloat) list"
| Genre_Stats "((string \<times> int) \<times> pyfloat) list"

record 'a rendered =
  r_filtered_data :: "'a row_scheme list"
  r_total_songs :: nat
  r_avg_weeks :: string
  r_genre_chart :: "((int \<times> string) \<times> nat \<times> nat \<times> pyfloat) list"
  r_mood :: mood_table
  r_gender_prop :: "((int \<times> string) \<times> nat \<times> nat \<times> pyfloat) list"

text \<open>
  The body of the script below the loader: the sidebar is built (which raises on a table
  without rows), \<open>sel\<close> is what the widgets return, and the tabs are computed from
  the filtered table. The result is the error that aborted the run or everything the
  run handed to the page.
\<close>

definition render :: "'a row_scheme list \<Rightarrow> selection \<Rightarrow> error + 'a rendered" where
  "render merged_data sel =
     (case slider_max_value merged_data of
        Inl e \<Rightarrow> Inl e
      | Inr _ \<Rightarrow>
          (let filtered = filtered_data merged_data
                            (selected_years sel) (selected_genres sel) (min_weeks sel)
           in Inr \<lparr> r_filtered_data = filtered,
                    r_total_songs = total_songs filtered,
                    r_avg_weeks = avg_weeks_metric filtered,
                    r_genre_chart = genre_chart filtered,
                    r_mood = (if mood_view sel = ''Year Comparison''
                              then Year_Stats (year_stats filtered)
                              else Genre_Stats (genre_stats filtered)),
                    r_gender_prop = gender_prop filtered \<rparr>))"

text \<open>One run of the whole script: it returns the cache it leaves behind and the page.\<close>

definition run_script ::
  "'a row_scheme list \<Rightarrow> selection \<Rightarrow> 'a row_scheme list option
     \<Rightarrow> 'a row_scheme list option \<times> (error + 'a rendered)" where
  "run_script csv sel cache =
     (let (merged_data, cache') = load_data csv cache
      in (cache', render merged_data sel))"

subsection \<open>A small chart table used in the examples\<close>

definition song :: "int \<Rightarrow> string \<Rightarrow> int \<Rightarrow> string \<Rightarrow> string \<Rightarrow> row" where
  "song y g w mo ge =
     \<lparr> year = y, genre_full = g, weeks_on_chart = w, mood_happy = mo, gender = ge \<rparr>"

definition chart_rows :: "row list" where
  "chart_rows =
     [song 1969 ''Rock'' 10 ''happy'' ''male'',
      song 1969 ''Pop'' 5 ''sad'' ''female'',
      song 2019 ''Rock'' 20 ''happy'' ''male'',
      song 2019 ''Pop'' 15 ''Happy'' ''female'',
      song 2019 ''Pop'' 15 [] ''male'',
      song 1985 ''Rock'' 30 ''happy'' ''group'']"

text \<open>A selection with no year chosen.\<close>

definition empty_selection :: selection where
  "empty_selection =
     \<lparr> selected_years = [], selected_genres = [''Rock'', ''Pop''], min_weeks = 0,
       mood_view = ''Year Comparison'' \<rparr>"

section \<open>Rounding to double precision\<close>

declare show_nat.simps [simp del]

lemma round_half_even_error: "\<bar>of_int (round_half_even x) - x\<bar> \<le> 1 / 2"
proof -
  define d where "d = x - of_int \<lfloor>x\<rfloor>"
  have d: "0 \<le> d" "d < 1" unfolding d_def by linarith+
  have x: "x = of_int \<lfloor>x\<rfloor> + d" by (simp add: d_def)
  have "round_half_even x = \<lfloor>x\<rfloor> \<and> d \<le> 1 / 2 \<or> round_half_even x = \<lfloor>x\<rfloor> + 1 \<and> 1 / 2 \<le> d"
    unfolding round_half_even_def Let_def d_def [symmetric] by auto
  then show ?thesis
  proof (elim disjE conjE)
    assume r: "round_half_even x = \<lfloor>x\<rfloor>" and "d \<le> 1 / 2"
    have "of_int (round_half_even x) - x = - d" by (simp add: r d_def)
    then show ?thesis using d \<open>d \<le> 1 / 2\<close> by simp
  next
    assume r: "round_half_even x = \<lfloor>x\<rfloor> + 1" and "1 / 2 \<le> d"
    have "of_int (round_half_even x) - x = 1 - d" by (simp add: r d_def)
    then show ?thesis using d \<open>1 / 2 \<le> d\<close> by simp
  qed
qed

lemma round_half_even_le: "x \<le> of_int n \<Longrightarrow> round_half_even x \<le> n"
proof -
  assume a: "x \<le> of_int n"
  have e: "\<bar>of_int (round_half_even x) - x\<bar> \<le> 1 / 2" by (rule round_half_even_error)
  have "(of_int (round_half_even x) :: rat) < of_int n + 1" using a e by linarith
  then have "round_half_even x < n + 1" by (metis of_int_1 of_int_add of_int_less_iff)
  then show ?thesis by simp
qed

lemma round_half_even_nonneg: "0 \<le> x \<Longrightarrow> 0 \<le> round_half_even x"
proof -
  assume a: "0 \<le> x"
  have e: "\<bar>of_int (round_half_even x) - x\<bar> \<le> 1 / 2" by (rule round_half_even_error)
  have "(of_int (-1) :: rat) < of_int (round_half_even x)" using a e by linarith
  then have "-1 < round_half_even x" by (simp only: of_int_less_iff)
  then show ?thesis by simp
qed

lemma ilog2_bounds:
  assumes "0 < q"
  shows "2 powi (ilog2 q) \<le> q" and "q < 2 powi (ilog2 q + 1)"
proof -
  obtain a b where ab: "quotient_of q = (a, b)" by (cases "quotient_of q")
  have b: "0 < b" using ab quotient_of_denom_pos by blast
  have q: "q = of_int a / of_int b" using ab by (rule quotient_of_div)
  have a: "0 < a" using assms b q by (simp add: zero_less_divide_iff)
  define la lb where "la = bitlen a" and "lb = bitlen b"
  have la: "2 ^ nat (la - 1) \<le> a" "a < 2 ^ nat la"
    using bitlen_bounds [OF a] by (simp_all add: la_def)
  have lb: "2 ^ nat (lb - 1) \<le> b" "b < 2 ^ nat lb"
    using bitlen_bounds [OF b] by (simp_all add: lb_def)
  have la1: "1 \<le> la" using a by (simp add: la_def bitlen_alt_def)
  have lb1: "1 \<le> lb" using b by (simp add: lb_def bitlen_alt_def)
  have "(of_int (2 ^ nat (la - 1)) :: rat) \<le> of_int a" "(of_int a :: rat) < of_int (2 ^ nat la)"
    using la by (simp_all only: of_int_le_iff of_int_less_iff)
  then have ra: "(2::rat) powi (la - 1) \<le> of_int a" "(of_int a :: rat) < 2 powi la"
    using la1 by (simp_all add: power_int_def)
  have "(of_int (2 ^ nat (lb - 1)) :: rat) \<le> of_int b" "(of_int b :: rat) < of_int (2 ^ nat lb)"
    using lb by (simp_all only: of_int_le_iff of_int_less_iff)
  then have rb: "(2::rat) powi (lb - 1) \<le> of_int b" "(of_int b :: rat) < 2 powi lb"
    using lb1 by (simp_all add: power_int_def)
  have up: "q < 2 powi (la - lb + 1)"
  proof -
    have "q < 2 powi la / 2 powi (lb - 1)"
      unfolding q using ra rb a b
      by (intro frac_less) (simp_all)
    also have "\<dots> = 2 powi (la - lb + 1)"
      by (simp add: power_int_diff power_int_add)
    finally show ?thesis .
  qed
  have lo: "2 powi (la - lb - 1) < q"
  proof -
    have "(2::rat) powi (la - 1) / 2 powi lb < q"
      unfolding q using ra rb a b
      by (intro frac_less2) (simp_all)
    moreover have "(2::rat) powi (la - 1) / 2 powi lb = 2 powi (la - lb - 1)"
      by (simp add: power_int_diff)
    ultimately show ?thesis by simp
  qed
  have e: "ilog2 q = (if 2 powi (la - lb) \<le> q then la - lb else la - lb - 1)"
    by (simp add: ilog2_def ab la_def lb_def Let_def)
  show "2 powi (ilog2 q) \<le> q" using lo by (simp add: e)
  show "q < 2 powi (ilog2 q + 1)" using up by (auto simp add: e not_le)
qed


lemma fl64_pos:
  "0 < q \<Longrightarrow>
   fl64 q = of_int (round_half_even (q / 2 powi (ilog2 q - 52))) * 2 powi (ilog2 q - 52)"
  by (simp add: fl64_def Let_def)

lemma fl64_nonneg: "0 \<le> q \<Longrightarrow> 0 \<le> fl64 q"
proof (cases "q = 0")
  case True
  then show ?thesis by (simp add: fl64_def)
next
  case False
  assume "0 \<le> q"
  with False have q: "0 < q" by simp
  have "0 \<le> round_half_even (q / 2 powi (ilog2 q - 52))"
    using q by (intro round_half_even_nonneg) simp
  then show ?thesis
    by (simp add: fl64_pos [OF q])
qed

lemma fl64_error:
  assumes q: "0 < q"
  shows "\<bar>fl64 q - q\<bar> \<le> q / 2 ^ 53"
proof -
  define u :: rat where "u = 2 powi (ilog2 q - 52)"
  have u: "0 < u" by (simp add: u_def)
  have "fl64 q - q = (of_int (round_half_even (q / u)) - q / u) * u"
    using u by (simp add: fl64_pos [OF q] u_def [symmetric] algebra_simps)
  then have "\<bar>fl64 q - q\<bar> = \<bar>of_int (round_half_even (q / u)) - q / u\<bar> * u"
    using u by (simp add: abs_mult)
  also have "\<dots> \<le> (1 / 2) * u"
    using u round_half_even_error [of "q / u"] by (intro mult_right_mono) simp_all
  also have "\<dots> = 2 powi (ilog2 q) / 2 ^ 53"
    by (simp add: u_def power_int_diff)
  also have "\<dots> \<le> q / 2 ^ 53"
    using ilog2_bounds(1) [OF q] by (simp add: divide_right_mono)
  finally show ?thesis .
qed

lemma fl64_le_1:
  assumes "0 \<le> q" and "q \<le> 1"
  shows "fl64 q \<le> 1"
proof (cases "q = 0")
  case True
  then show ?thesis by (simp add: fl64_def)
next
  case False
  with assms have q: "0 < q" by simp
  define e where "e = ilog2 q"
  define u :: rat where "u = 2 powi (e - 52)"
  have u: "0 < u" by (simp add: u_def)
  have "(2::rat) powi e \<le> 2 powi 0" using ilog2_bounds(1) [OF q] assms by (simp add: e_def)
  then have e: "e \<le> 0" by (rule power_int_le_imp_le_exp [rotated]) simp_all
  have "q / u \<le> 1 / u" using assms u by (simp add: divide_right_mono)
  also have "1 / u = of_int (2 ^ nat (52 - e))"
    using e by (simp add: u_def power_int_def field_simps)
  finally have "round_half_even (q / u) \<le> 2 ^ nat (52 - e)"
    by (rule round_half_even_le)
  then have "(of_int (round_half_even (q / u)) :: rat) \<le> of_int (2 ^ nat (52 - e))"
    by (simp only: of_int_le_iff)
  then have "of_int (round_half_even (q / u)) * u \<le> of_int (2 ^ nat (52 - e)) * u"
    using u by (simp add: mult_right_mono)
  also have "of_int (2 ^ nat (52 - e)) * u = 1"
    using e by (simp add: u_def power_int_def field_simps)
  finally show ?thesis
    by (simp add: fl64_pos [OF q] u_def e_def)
qed

section \<open>The filter\<close>

lemma getitem_mask_map: "getitem_mask df (map P df) = filter P df"
  by (induction df) (simp_all add: getitem_mask_def)

lemma filter_mask:
  "series_and (series_and (isin (column year df) ys) (isin (column genre_full df) gs))
     (series_ge (column weeks_on_chart df) m)
   = map (\<lambda>r. year r \<in> set ys \<and> genre_full r \<in> set gs \<and> m \<le> weeks_on_chart r) df"
  by (induction df) (simp_all add: series_and_def isin_def series_ge_def column_def)

lemma filtered_data_filter:
  "filtered_data df ys gs m
   = filter (\<lambda>r. year r \<in> set ys \<and> genre_full r \<in> set gs \<and> m \<le> weeks_on_chart r) df"
  unfolding filtered_data_def filter_mask by (rule getitem_mask_map)

text \<open>
  Claim C1. For every dataset, year list, genre list and threshold, the filter returns
  exactly the dataset rows whose year is among the years, whose genre is among the
  genres and whose weeks on chart reach the threshold, in dataset order: a row is in
  the result if and only if it is a dataset row passing all three tests. An empty year
  list or an empty genre list gives the empty table; there is no error result.
\<close>

theorem filter_exact:
  "filtered_data ds ys gs m
     = filter (\<lambda>r. year r \<in> set ys \<and> genre_full r \<in> set gs \<and> m \<le> weeks_on_chart r) ds
   \<and> (\<forall>r. r \<in> set (filtered_data ds ys gs m) \<longleftrightarrow>
          r \<in> set ds \<and> year r \<in> set ys \<and> genre_full r \<in> set gs \<and> m \<le> weeks_on_chart r)
   \<and> filtered_data ds [] gs m = []
   \<and> filtered_data ds ys [] m = []"
  by (simp add: filtered_data_filter)

theorem filter_exact_example:
  "filtered_data (take 4 chart_rows) [1969, 2019] [''Rock''] 8
     = [song 1969 ''Rock'' 10 ''happy'' ''male'', song 2019 ''Rock'' 20 ''happy'' ''male'']"
  using filter_exact [of "take 4 chart_rows" "[1969, 2019]" "[''Rock'']" 8]
  by (simp add: chart_rows_def song_def)

lemma filter_subseq_mono:
  "(\<And>x. x \<in> set xs \<Longrightarrow> P x \<Longrightarrow> Q x) \<Longrightarrow> subseq (filter P xs) (filter Q xs)"
  by (induction xs) (auto intro: subseq_Cons')

text \<open>
  Claim C2. The filter is monotonic in the selection: with more years, more genres and
  a threshold that is not higher, every row returned before is still returned (and the
  old result is a subsequence of the new one).
\<close>

theorem filter_monotonic:
  "set ys \<subseteq> set ys' \<Longrightarrow> set gs \<subseteq> set gs' \<Longrightarrow> m' \<le> m \<Longrightarrow>
   set (filtered_data ds ys gs m) \<subseteq> set (filtered_data ds ys' gs' m')
   \<and> subseq (filtered_data ds ys gs m) (filtered_data ds ys' gs' m')"
  by (auto simp: filtered_data_filter intro!: filter_subseq_mono)

theorem filter_monotonic_example:
  "set [1969] \<subseteq> set [1969, 2019] \<and> set [''Rock''] \<subseteq> set [''Rock'', ''Pop''] \<and> (5::int) \<le> 8
   \<and> filtered_data chart_rows [1969] [''Rock''] 8 = [song 1969 ''Rock'' 10 ''happy'' ''male'']
   \<and> set (filtered_data chart_rows [1969] [''Rock''] 8)
        \<subseteq> set (filtered_data chart_rows [1969, 2019] [''Rock'', ''Pop''] 5)"
  using filter_monotonic [of "[1969]" "[1969, 2019]" "[''Rock'']" "[''Rock'', ''Pop'']" 5 8 chart_rows]
  by (simp add: filtered_data_filter chart_rows_def song_def)

section \<open>The dataset across runs\<close>

lemma count_list_filter_le: "count_list (filter P xs) r \<le> count_list xs r"
  by (induction xs) auto

lemma run_script_cache: "fst (run_script csv sel cache) = snd (load_data csv cache)"
  by (simp add: run_script_def split: prod.splits)

lemma run_script_page: "snd (run_script csv sel cache) = render (fst (load_data csv cache)) sel"
  by (simp add: run_script_def split: prod.splits)

lemma load_data_after_run:
  "fst (load_data csv' (fst (run_script csv sel cache))) = fst (load_data csv cache)"
  by (cases cache) (simp_all add: run_script_cache load_data_def)

text \<open>
  Claim C3. The filtered table is a subsequence of the dataset: it is the dataset
  restricted to a set of row positions, so it holds dataset rows only, none more often
  than the dataset does, in dataset order. Producing it leaves the dataset as it was:
  the table the next run loads is the table this run loaded.
\<close>

theorem filtered_table_subsequence:
  "subseq (filtered_data ds ys gs m) ds
   \<and> (\<exists>I. filtered_data ds ys gs m = nths ds I)
   \<and> (\<forall>r. count_list (filtered_data ds ys gs m) r \<le> count_list ds r)
   \<and> fst (load_data csv' (fst (run_script csv sel cache))) = fst (load_data csv cache)"
proof -
  have "\<exists>I. filtered_data ds ys gs m = nths ds I"
    unfolding filtered_data_filter filter_eq_nths by blast
  then show ?thesis
    by (simp add: filtered_data_filter count_list_filter_le load_data_after_run)
qed

section \<open>The year options\<close>

text \<open>
  Claim C9. The year multi-select offers exactly 1969 and 2019, whatever the dataset
  holds; a selection made from these options lets no row of another year into the
  filtered table.
\<close>

theorem year_domain_fixed:
  "fst (sidebar_options ds) = [1969, 2019]
   \<and> (set ys \<subseteq> set (fst (sidebar_options ds)) \<longrightarrow>
        (\<forall>r \<in> set (filtered_data ds ys gs m). year r = 1969 \<or> year r = 2019))"
  by (auto simp: sidebar_options_def year_options_def filtered_data_filter)

theorem year_domain_fixed_example:
  "song 1985 ''Rock'' 30 ''happy'' ''group'' \<in> set chart_rows
   \<and> set [2019, 1969] \<subseteq> set (fst (sidebar_options chart_rows))
   \<and> map year (filtered_data chart_rows [2019, 1969] (genre_options chart_rows) 0)
       = [1969, 1969, 2019, 2019, 2019]"
  using year_domain_fixed [of chart_rows "[2019, 1969]" "genre_options chart_rows" 0]
  by (simp add: filtered_data_filter chart_rows_def song_def sidebar_options_def
      year_options_def genre_options_def unique_def column_def)

section \<open>The mood aggregation\<close>

lemma groupby_apply_keys:
  "map fst (groupby_apply key col f df) = sort (remdups (map key df))"
  by (simp add: groupby_apply_def column_def comp_def)

lemma groupby_apply_iff:
  "(k, v) \<in> set (groupby_apply key col f df) \<longleftrightarrow>
     k \<in> key ` set df \<and> v = f (map col (filter (\<lambda>r. key r = k) df))"
  by (auto simp: groupby_apply_def column_def)

lemma sum_list_indicator:
  "sum_list (map (\<lambda>r. if P r then 1 else 0) xs) = int (length (filter P xs))"
  by (induction xs) simp_all

lemma happy_mean_group:
  "g \<noteq> [] \<Longrightarrow>
   happy_mean (map mood_happy g)
     = float_div (int (length (filter (\<lambda>r. mood_happy r = ''happy'') g))) (int (length g))"
  by (simp add: happy_mean_def bool_mean_def series_eq_def series_mean_def Let_def comp_def
      sum_list_indicator)

lemma float_div_fraction:
  assumes "h \<le> n" and "0 < n"
  shows "\<exists>q. float_div (int h) (int n) = Finite q \<and> 0 \<le> q \<and> q \<le> 1"
proof -
  have "0 \<le> (of_nat h / of_nat n :: rat)" "(of_nat h / of_nat n :: rat) \<le> 1"
    using assms by simp_all
  then show ?thesis using assms
    by (simp add: float_div_def fl64_nonneg fl64_le_1)
qed


lemma happy_groups:
  assumes "(k, v) \<in> set (groupby_apply key mood_happy happy_mean df)"
  shows "filter (\<lambda>r. key r = k) df \<noteq> []
         \<and> v = float_div
                 (int (length (filter (\<lambda>r. mood_happy r = ''happy'') (filter (\<lambda>r. key r = k) df))))
                 (int (length (filter (\<lambda>r. key r = k) df)))
         \<and> (\<exists>q. v = Finite q \<and> 0 \<le> q \<and> q \<le> 1)"
proof -
  let ?g = "filter (\<lambda>r. key r = k) df"
  from assms have k: "k \<in> key ` set df" and v: "v = happy_mean (map mood_happy ?g)"
    by (simp_all add: groupby_apply_iff)
  from k have g: "?g \<noteq> []" by (auto simp: filter_empty_conv)
  have v': "v = float_div (int (length (filter (\<lambda>r. mood_happy r = ''happy'') ?g))) (int (length ?g))"
    unfolding v by (rule happy_mean_group [OF g])
  have "\<exists>q. v = Finite q \<and> 0 \<le> q \<and> q \<le> 1"
    unfolding v' using g by (intro float_div_fraction length_filter_le) simp
  with g v' show ?thesis by blast
qed

lemma groupby_apply_key_set:
  "set (map fst (groupby_apply key col f df)) = key ` set df"
  "distinct (map fst (groupby_apply key col f df))"
  by (simp_all add: groupby_apply_keys)

text \<open>
  Claim C4. The mood tables hold one row for every distinct group key occurring in the
  filtered table and for no other key, so a group without rows is not emitted. The
  value of a group is the double-precision quotient of the number of its rows whose
  \<^verbatim>\<open>mood_happy\<close> equals \<^verbatim>\<open>'happy'\<close> by the number of its rows; it is
  a finite number between 0 and 1, never \<^verbatim>\<open>nan\<close>. This holds for the table by
  year and for the table by genre and year.
\<close>

theorem mean_indicator_by_group:
  "set (map fst (year_stats fd)) = year ` set fd \<and> distinct (map fst (year_stats fd))
   \<and> (\<forall>k v. (k, v) \<in> set (year_stats fd) \<longrightarrow>
         filter (\<lambda>r. year r = k) fd \<noteq> []
         \<and> v = float_div
                 (int (length (filter (\<lambda>r. mood_happy r = ''happy'') (filter (\<lambda>r. year r = k) fd))))
                 (int (length (filter (\<lambda>r. year r = k) fd)))
         \<and> (\<exists>q. v = Finite q \<and> 0 \<le> q \<and> q \<le> 1))
   \<and> set (map fst (genre_stats fd)) = (\<lambda>r. (genre_full r, year r)) ` set fd
   \<and> distinct (map fst (genre_stats fd))
   \<and> (\<forall>k v. (k, v) \<in> set (genre_stats fd) \<longrightarrow>
         filter (\<lambda>r. (genre_full r, year r) = k) fd \<noteq> []
         \<and> v = float_div
                 (int (length (filter (\<lambda>r. mood_happy r = ''happy'')
                                 (filter (\<lambda>r. (genre_full r, year r) = k) fd))))
                 (int (length (filter (\<lambda>r. (genre_full r, year r) = k) fd)))
         \<and> (\<exists>q. v = Finite q \<and> 0 \<le> q \<and> q \<le> 1))"
proof (intro conjI allI impI)
  show "set (map fst (year_stats fd)) = year ` set fd"
    unfolding year_stats_def by (rule groupby_apply_key_set)
  show "distinct (map fst (year_stats fd))"
    unfolding year_stats_def by (rule groupby_apply_key_set)
  show "set (map fst (genre_stats fd)) = (\<lambda>r. (genre_full r, year r)) ` set fd"
    unfolding genre_stats_def by (rule groupby_apply_key_set)
  show "distinct (map fst (genre_stats fd))"
    unfolding genre_stats_def by (rule groupby_apply_key_set)
next
  fix k v assume "(k, v) \<in> set (year_stats fd)"
  then have kv: "(k, v) \<in> set (groupby_apply year mood_happy happy_mean fd)"
    by (simp only: year_stats_def)
  note h = happy_groups [OF kv]
  from h show "filter (\<lambda>r. year r = k) fd \<noteq> []" by (rule conjunct1)
  from h show "v = float_div
                 (int (length (filter (\<lambda>r. mood_happy r = ''happy'') (filter (\<lambda>r. year r = k) fd))))
                 (int (length (filter (\<lambda>r. year r = k) fd)))" by blast
  from h show "\<exists>q. v = Finite q \<and> 0 \<le> q \<and> q \<le> 1" by blast
next
  fix k v assume "(k, v) \<in> set (genre_stats fd)"
  then have kv: "(k, v) \<in> set (groupby_apply (\<lambda>r. (genre_full r, year r)) mood_happy happy_mean fd)"
    by (simp only: genre_stats_def)
  note h = happy_groups [OF kv]
  from h show "filter (\<lambda>r. (genre_full r, year r) = k) fd \<noteq> []" by (rule conjunct1)
  from h show "v = float_div
                 (int (length (filter (\<lambda>r. mood_happy r = ''happy'')
                                 (filter (\<lambda>r. (genre_full r, year r) = k) fd))))
                 (int (length (filter (\<lambda>r. (genre_full r, year r) = k) fd)))" by blast
  from h show "\<exists>q. v = Finite q \<and> 0 \<le> q \<and> q \<le> 1" by blast
qed


lemma year_stats_chart_rows:
  "year_stats chart_rows
     = [(1969, Finite (1 / 2)), (1985, Finite 1),
        (2019, Finite (6004799503160661 / 18014398509481984))]"
  by code_simp

theorem mean_indicator_by_group_example:
  "year_stats chart_rows
     = [(1969, Finite (1 / 2)), (1985, Finite 1),
        (2019, Finite (6004799503160661 / 18014398509481984))]
   \<and> float_div 1 3 = Finite (6004799503160661 / 18014398509481984)
   \<and> (\<exists>q. Finite (6004799503160661 / 18014398509481984) = Finite q \<and> 0 \<le> q \<and> q \<le> 1)"
proof -
  let ?v = "Finite (6004799503160661 / 18014398509481984)"
  have m: "(2019, ?v) \<in> set (year_stats chart_rows)"
    by (simp add: year_stats_chart_rows)
  have "\<exists>q. ?v = Finite q \<and> 0 \<le> q \<and> q \<le> 1"
    using mean_indicator_by_group [of chart_rows] m by blast
  moreover have "float_div 1 3 = ?v" by code_simp
  ultimately show ?thesis using year_stats_chart_rows by simp
qed

lemma float_div_zero: "0 < n \<Longrightarrow> float_div 0 (int n) = Finite 0"
  by (simp add: float_div_def fl64_def)

lemma unhappy_group:
  assumes k: "k \<in> key ` set df"
    and u: "\<forall>r \<in> set df. key r = k \<longrightarrow> mood_happy r \<noteq> ''happy''"
  shows "(k, Finite 0) \<in> set (groupby_apply key mood_happy happy_mean df)"
proof -
  let ?g = "filter (\<lambda>r. key r = k) df"
  from k have g: "?g \<noteq> []" by (auto simp: filter_empty_conv)
  from u have "filter (\<lambda>r. mood_happy r = ''happy'') ?g = []"
    by (auto simp: filter_empty_conv)
  then have "happy_mean (map mood_happy ?g) = Finite 0"
    using g by (simp add: happy_mean_group float_div_zero)
  then show ?thesis using k by (simp add: groupby_apply_iff)
qed

text \<open>
  Claim C10. A row counts as happy exactly when its \<^verbatim>\<open>mood_happy\<close> is the string
  \<^verbatim>\<open>'happy'\<close>: the mean of a non-empty group is the number of its entries equal to
  that string over its size, so any other value (\<^verbatim>\<open>'Happy'\<close>, the empty
  string) adds nothing. A group that occurs in the table and has no happy row is
  emitted with the value 0, in the table by year and in the table by genre and year.
\<close>

theorem happy_is_exact_match:
  "(x \<noteq> [] \<longrightarrow>
      happy_mean x = float_div (int (length (filter (\<lambda>s. s = ''happy'') x))) (int (length x)))
   \<and> (k \<in> year ` set fd \<and> (\<forall>r \<in> set fd. year r = k \<longrightarrow> mood_happy r \<noteq> ''happy'')
        \<longrightarrow> (k, Finite 0) \<in> set (year_stats fd))
   \<and> (gk \<in> (\<lambda>r. (genre_full r, year r)) ` set fd
        \<and> (\<forall>r \<in> set fd. (genre_full r, year r) = gk \<longrightarrow> mood_happy r \<noteq> ''happy'')
        \<longrightarrow> (gk, Finite 0) \<in> set (genre_stats fd))"
proof (intro conjI impI)
  assume "x \<noteq> []"
  then show "happy_mean x = float_div (int (length (filter (\<lambda>s. s = ''happy'') x))) (int (length x))"
    by (simp add: happy_mean_def bool_mean_def series_eq_def series_mean_def Let_def comp_def
        sum_list_indicator)
next
  assume "k \<in> year ` set fd \<and> (\<forall>r \<in> set fd. year r = k \<longrightarrow> mood_happy r \<noteq> ''happy'')"
  then show "(k, Finite 0) \<in> set (year_stats fd)"
    unfolding year_stats_def by (intro unhappy_group) simp_all
next
  assume "gk \<in> (\<lambda>r. (genre_full r, year r)) ` set fd
        \<and> (\<forall>r \<in> set fd. (genre_full r, year r) = gk \<longrightarrow> mood_happy r \<noteq> ''happy'')"
  then show "(gk, Finite 0) \<in> set (genre_stats fd)"
    unfolding genre_stats_def by (intro unhappy_group) simp_all
qed

lemma genre_stats_chart_rows:
  "genre_stats chart_rows
     = [((''Pop'', 1969), Finite 0), ((''Pop'', 2019), Finite 0),
        ((''Rock'', 1969), Finite 1), ((''Rock'', 1985), Finite 1), ((''Rock'', 2019), Finite 1)]"
  by code_simp

theorem happy_is_exact_match_example:
  "map mood_happy (filter (\<lambda>r. (genre_full r, year r) = (''Pop'', 2019)) chart_rows) = [''Happy'', []]
   \<and> happy_mean [''Happy'', [], ''happy''] = float_div 1 3
   \<and> ((''Pop'', 2019), Finite 0) \<in> set (genre_stats chart_rows)
   \<and> genre_stats chart_rows
     = [((''Pop'', 1969), Finite 0), ((''Pop'', 2019), Finite 0),
        ((''Rock'', 1969), Finite 1), ((''Rock'', 1985), Finite 1), ((''Rock'', 2019), Finite 1)]"
proof -
  have g: "(''Pop'', 2019) \<in> (\<lambda>r. (genre_full r, year r)) ` set chart_rows"
    by (simp add: chart_rows_def song_def)
  have u: "\<forall>r \<in> set chart_rows. (genre_full r, year r) = (''Pop'', 2019) \<longrightarrow> mood_happy r \<noteq> ''happy''"
    by (simp add: chart_rows_def song_def)
  note t = happy_is_exact_match [of "[''Happy'', [], ''happy'']" 0 chart_rows "(''Pop'', 2019)"]
  from t g u have "((''Pop'', 2019), Finite 0) \<in> set (genre_stats chart_rows)" by blast
  moreover from t have "happy_mean [''Happy'', [], ''happy''] = float_div 1 3" by simp
  moreover have "map mood_happy (filter (\<lambda>r. (genre_full r, year r) = (''Pop'', 2019)) chart_rows) = [''Happy'', []]"
    by (simp add: chart_rows_def song_def)
  ultimately show ?thesis using genre_stats_chart_rows by simp
qed

section \<open>The proportion charts\<close>

lemma unique_set [simp]: "set (unique xs) = set xs"
  by (simp add: unique_def)

lemma unique_distinct [simp]: "distinct (unique xs)"
  by (simp add: unique_def)

lemma count_list_map_filter:
  "count_list (map f xs) k = length (filter (\<lambda>r. f r = k) xs)"
  by (induction xs) simp_all

lemma group_sizes_total:
  "(\<Sum>k \<in> f ` set xs. length (filter (\<lambda>r. f r = k) xs)) = length xs"
  using sum_count_set [of "map f xs" "f ` set xs"]
  by (simp add: count_list_map_filter)

lemma group_sizes_outer:
  assumes "\<And>r. out (key r) = outr r"
  shows "sum_list (map (\<lambda>k. length (filter (\<lambda>r. key r = k) xs))
                     (filter (\<lambda>k. out k = y) (unique (map key xs))))
         = length (filter (\<lambda>r. outr r = y) xs)"
proof -
  let ?xs' = "filter (\<lambda>r. outr r = y) xs"
  let ?ks = "filter (\<lambda>k. out k = y) (unique (map key xs))"
  have ks: "set ?ks = key ` set ?xs'" using assms by auto
  have "sum_list (map (\<lambda>k. length (filter (\<lambda>r. key r = k) xs)) ?ks)
        = (\<Sum>k \<in> set ?ks. length (filter (\<lambda>r. key r = k) xs))"
    by (rule sum_list_distinct_conv_sum_set) simp
  also have "\<dots> = (\<Sum>k \<in> key ` set ?xs'. length (filter (\<lambda>r. key r = k) ?xs'))"
    unfolding ks
  proof (rule sum.cong [OF refl])
    fix k assume "k \<in> key ` set ?xs'"
    then have "out k = y" using assms by auto
    then have "\<And>r. (outr r = y \<and> key r = k) = (key r = k)" using assms by auto
    then show "length (filter (\<lambda>r. key r = k) xs) = length (filter (\<lambda>r. key r = k) ?xs')"
      by simp
  qed
  also have "\<dots> = length ?xs'" by (rule group_sizes_total)
  finally show ?thesis .
qed

lemma proportion_rows:
  assumes "\<And>r. out (key r) = outr r"
  shows "transform_calculate (transform_joinaggregate out (transform_aggregate key df))
         = map (\<lambda>k. (k, length (filter (\<lambda>r. key r = k) df),
                       length (filter (\<lambda>r. outr r = out k) df),
                       float_div (int (length (filter (\<lambda>r. key r = k) df)))
                                 (int (length (filter (\<lambda>r. outr r = out k) df)))))
               (unique (map key df))"
proof -
  have "\<And>k. sum_list (map snd (filter (\<lambda>(k', c'). out k' = out k) (transform_aggregate key df)))
        = length (filter (\<lambda>r. outr r = out k) df)"
    unfolding transform_aggregate_def
    by (simp add: filter_map comp_def group_sizes_outer [of out key outr, OF assms])
  then show ?thesis
    by (simp add: transform_calculate_def transform_joinaggregate_def)
      (simp add: transform_aggregate_def comp_def)
qed


lemma fl64_sum_error:
  "(\<And>k. k \<in> set ks \<Longrightarrow> 0 < q k) \<Longrightarrow>
   \<bar>sum_list (map (\<lambda>k. fl64 (q k)) ks) - sum_list (map q ks)\<bar> \<le> sum_list (map q ks) / 2 ^ 53"
proof (induction ks)
  case Nil
  show ?case by simp
next
  case (Cons k ks)
  have a: "\<bar>fl64 (q k) - q k\<bar> \<le> q k / 2 ^ 53"
    by (rule fl64_error) (simp add: Cons.prems)
  have b: "\<bar>sum_list (map (\<lambda>k. fl64 (q k)) ks) - sum_list (map q ks)\<bar> \<le> sum_list (map q ks) / 2 ^ 53"
    by (rule Cons.IH) (simp add: Cons.prems)
  have "\<bar>(fl64 (q k) - q k) + (sum_list (map (\<lambda>k. fl64 (q k)) ks) - sum_list (map q ks))\<bar>
        \<le> q k / 2 ^ 53 + sum_list (map q ks) / 2 ^ 53"
    using a b by (rule order_trans [OF abs_triangle_ineq add_mono])
  then show ?case by (simp add: add_divide_distrib algebra_simps)
qed

lemma sum_list_quotients:
  "sum_list (map (\<lambda>k. (of_nat (c k) / d :: rat)) ks) = of_nat (sum_list (map c ks)) / d"
  by (induction ks) (simp_all add: add_divide_distrib)

lemma proportions_of_rows:
  assumes "\<And>r. fst (key r) = year r" and y: "y \<in> year ` set df"
  shows "proportions_of y
           (transform_calculate (transform_joinaggregate fst (transform_aggregate key df)))
         = map Finite
             (map (\<lambda>k. fl64 (of_nat (length (filter (\<lambda>r. key r = k) df))
                               / of_nat (length (filter (\<lambda>r. year r = y) df))))
                  (filter (\<lambda>k. fst k = y) (unique (map key df))))"
proof -
  from y have "filter (\<lambda>r. year r = y) df \<noteq> []" by (auto simp: filter_empty_conv)
  then have t: "length (filter (\<lambda>r. year r = y) df) \<noteq> 0" by simp
  show ?thesis
    unfolding proportion_rows [of fst key year, OF assms(1)] proportions_of_def
    using t by (simp add: filter_map comp_def float_div_def cong: map_cong)
qed

lemma proportions_sum:
  assumes key: "\<And>r. fst (key r) = year r" and y: "y \<in> year ` set df"
  shows "\<exists>qs. proportions_of y
                 (transform_calculate (transform_joinaggregate fst (transform_aggregate key df)))
               = map Finite qs
             \<and> qs \<noteq> [] \<and> \<bar>sum_list qs - 1\<bar> \<le> 1 / 2 ^ 53"
proof -
  let ?ks = "filter (\<lambda>k. fst k = y) (unique (map key df))"
  let ?t = "length (filter (\<lambda>r. year r = y) df)"
  let ?q = "\<lambda>k. (of_nat (length (filter (\<lambda>r. key r = k) df)) / of_nat ?t :: rat)"
  from y have "filter (\<lambda>r. year r = y) df \<noteq> []" by (auto simp: filter_empty_conv)
  then have t: "0 < ?t" by simp
  from y key have ne: "?ks \<noteq> []" by (force simp: filter_empty_conv)
  have pos: "\<And>k. k \<in> set ?ks \<Longrightarrow> 0 < ?q k"
  proof -
    fix k assume "k \<in> set ?ks"
    then have "filter (\<lambda>r. key r = k) df \<noteq> []" by (auto simp: filter_empty_conv)
    then show "0 < ?q k" using t by simp
  qed
  have "sum_list (map ?q ?ks)
        = of_nat (sum_list (map (\<lambda>k. length (filter (\<lambda>r. key r = k) df)) ?ks)) / of_nat ?t"
    by (rule sum_list_quotients)
  also have "\<dots> = of_nat ?t / of_nat ?t"
    by (simp only: group_sizes_outer [of fst key year, OF key])
  also have "\<dots> = 1" using t by simp
  finally have one: "sum_list (map ?q ?ks) = 1" .
  have "\<bar>sum_list (map (\<lambda>k. fl64 (?q k)) ?ks) - sum_list (map ?q ?ks)\<bar>
        \<le> sum_list (map ?q ?ks) / 2 ^ 53"
    by (rule fl64_sum_error) (rule pos)
  then have "\<bar>sum_list (map (\<lambda>k. fl64 (?q k)) ?ks) - 1\<bar> \<le> 1 / 2 ^ 53"
    unfolding one .
  moreover have "map (\<lambda>k. fl64 (?q k)) ?ks \<noteq> []" using ne by simp
  ultimately show ?thesis
    using proportions_of_rows [of key y df, OF key y] by blast
qed


lemma double_ulp_tolerance: "(1 / 2 ^ 53 :: rat) \<le> 1 / 10 ^ 9"
  by simp

text \<open>
  Claim C5. For every filtered table and every year occurring in it, the proportions
  that the genre chart (and the gender chart) computes for the inner groups of that
  year are finite doubles, at least one, and their sum differs from 1 by at most
  \<open>10\<^sup>-\<^sup>9\<close>. Each proportion is the rounded quotient of the group's count by the sum
  of the counts of the year; the sum of the proportions is taken exactly, and the
  deviation from 1 is in fact at most \<open>2\<^sup>-\<^sup>5\<^sup>3\<close>, the rounding error of the quotients.
\<close>

theorem proportions_sum_to_one:
  "y \<in> year ` set fd \<Longrightarrow>
   (\<exists>qs. proportions_of y (genre_chart fd) = map Finite qs \<and> qs \<noteq> []
         \<and> \<bar>sum_list qs - 1\<bar> \<le> 1 / 10 ^ 9)
   \<and> (\<exists>qs. proportions_of y (gender_prop fd) = map Finite qs \<and> qs \<noteq> []
         \<and> \<bar>sum_list qs - 1\<bar> \<le> 1 / 10 ^ 9)"
proof
  assume y: "y \<in> year ` set fd"
  obtain qs where "proportions_of y (genre_chart fd) = map Finite qs" "qs \<noteq> []"
    "\<bar>sum_list qs - 1\<bar> \<le> 1 / 2 ^ 53"
    unfolding genre_chart_def
    using proportions_sum [of "\<lambda>r. (year r, genre_full r)" y fd, OF _ y] by auto
  then show "\<exists>qs. proportions_of y (genre_chart fd) = map Finite qs \<and> qs \<noteq> []
         \<and> \<bar>sum_list qs - 1\<bar> \<le> 1 / 10 ^ 9"
    using double_ulp_tolerance by (intro exI [of _ qs]) linarith
next
  assume y: "y \<in> year ` set fd"
  obtain qs where "proportions_of y (gender_prop fd) = map Finite qs" "qs \<noteq> []"
    "\<bar>sum_list qs - 1\<bar> \<le> 1 / 2 ^ 53"
    unfolding gender_prop_def
    using proportions_sum [of "\<lambda>r. (year r, gender r)" y fd, OF _ y] by auto
  then show "\<exists>qs. proportions_of y (gender_prop fd) = map Finite qs \<and> qs \<noteq> []
         \<and> \<bar>sum_list qs - 1\<bar> \<le> 1 / 10 ^ 9"
    using double_ulp_tolerance by (intro exI [of _ qs]) linarith
qed

lemma genre_chart_2019:
  "proportions_of 2019 (genre_chart chart_rows)
     = [Finite (6004799503160661 / 18014398509481984),
        Finite (6004799503160661 / 9007199254740992)]"
  by code_simp

theorem proportions_sum_to_one_example:
  "2019 \<in> year ` set chart_rows
   \<and> proportions_of 2019 (genre_chart chart_rows)
     = [Finite (6004799503160661 / 18014398509481984),
        Finite (6004799503160661 / 9007199254740992)]
   \<and> (6004799503160661 / 18014398509481984 + 6004799503160661 / 9007199254740992 :: rat) \<noteq> 1
   \<and> (\<exists>qs. proportions_of 2019 (genre_chart chart_rows) = map Finite qs \<and> qs \<noteq> []
         \<and> \<bar>sum_list qs - 1\<bar> \<le> 1 / 10 ^ 9)
   \<and> (\<exists>qs. proportions_of 2019 (gender_prop chart_rows) = map Finite qs \<and> qs \<noteq> []
         \<and> \<bar>sum_list qs - 1\<bar> \<le> 1 / 10 ^ 9)"
proof -
  have y: "2019 \<in> year ` set chart_rows"
    by (simp add: chart_rows_def song_def)
  show ?thesis
    using y proportions_sum_to_one [OF y] genre_chart_2019 by simp
qed

section \<open>The empty selection and repeated runs\<close>

lemma avg_weeks_metric_Nil: "avg_weeks_metric [] = ''nan weeks''"
  by (simp add: avg_weeks_metric_def avg_weeks_def series_mean_def column_def format_1f_def)

lemma tables_Nil:
  "genre_chart [] = []" "gender_prop [] = []" "year_stats [] = []" "genre_stats [] = []"
  by (simp_all add: genre_chart_def gender_prop_def year_stats_def genre_stats_def
      transform_calculate_def transform_joinaggregate_def transform_aggregate_def unique_def
      groupby_apply_def column_def)

lemma slider_max_value_Cons: "merged \<noteq> [] \<Longrightarrow> \<exists>v. slider_max_value merged = Inr v"
  by (cases merged) (simp_all add: slider_max_value_def series_max_def column_def)

text \<open>
  Claim C7, as the spec states it, asks for the average metric of an empty filtered
  table to read "no data" instead of a computed NaN. The script computes the mean of
  the empty column, which is \<^verbatim>\<open>nan\<close>, and prints it: on the example table with no
  year selected the metric reads \<^verbatim>\<open>nan weeks\<close>.
\<close>

theorem empty_selection_average_is_nan:
  "filtered_data chart_rows [] [''Rock'', ''Pop''] 0 = []
   \<and> avg_weeks (filtered_data chart_rows [] [''Rock'', ''Pop''] 0) = NaN
   \<and> avg_weeks_metric (filtered_data chart_rows [] [''Rock'', ''Pop''] 0) = ''nan weeks''
   \<and> avg_weeks_metric (filtered_data chart_rows [] [''Rock'', ''Pop''] 0) \<noteq> ''no data''
   \<and> map_sum id r_avg_weeks (render chart_rows empty_selection) = Inr ''nan weeks''"
proof -
  have f: "filtered_data chart_rows [] [''Rock'', ''Pop''] 0 = []"
    by (simp add: filtered_data_filter)
  obtain v where v: "slider_max_value chart_rows = Inr v"
    using slider_max_value_Cons [of chart_rows] by (auto simp: chart_rows_def)
  have "map_sum id r_avg_weeks (render chart_rows empty_selection) = Inr ''nan weeks''"
    by (simp add: render_def v empty_selection_def f avg_weeks_metric_Nil)
  then show ?thesis
    by (simp add: f avg_weeks_metric_Nil avg_weeks_def series_mean_def column_def)
qed

text \<open>
  Claim C7, amended. When the dataset has rows and the filtered table is empty, the
  run raises no error and hands the page a well-defined state: no rows, a song count
  of 0, the average metric \<^verbatim>\<open>nan weeks\<close> (the mean of the empty column is NaN and
  is printed as such), and empty tables behind all three aggregated charts.
\<close>

theorem empty_selection_renders:
  "merged \<noteq> [] \<Longrightarrow>
   filtered_data merged (selected_years sel) (selected_genres sel) (min_weeks sel) = [] \<Longrightarrow>
   render merged sel
     = Inr \<lparr> r_filtered_data = [], r_total_songs = 0, r_avg_weeks = ''nan weeks'',
             r_genre_chart = [],
             r_mood = (if mood_view sel = ''Year Comparison'' then Year_Stats [] else Genre_Stats []),
             r_gender_prop = [] \<rparr>"
proof -
  assume m: "merged \<noteq> []"
    and f: "filtered_data merged (selected_years sel) (selected_genres sel) (min_weeks sel) = []"
  obtain v where v: "slider_max_value merged = Inr v"
    using slider_max_value_Cons [OF m] by blast
  show ?thesis
    by (simp add: render_def v f avg_weeks_metric_Nil tables_Nil total_songs_def)
qed

theorem empty_selection_renders_example:
  "chart_rows \<noteq> []
   \<and> filtered_data chart_rows (selected_years empty_selection) (selected_genres empty_selection)
        (min_weeks empty_selection) = []
   \<and> render chart_rows empty_selection
     = Inr \<lparr> r_filtered_data = [], r_total_songs = 0, r_avg_weeks = ''nan weeks'',
             r_genre_chart = [], r_mood = Year_Stats [], r_gender_prop = [] \<rparr>"
proof -
  have m: "chart_rows \<noteq> []" by (simp add: chart_rows_def)
  have f: "filtered_data chart_rows (selected_years empty_selection)
             (selected_genres empty_selection) (min_weeks empty_selection) = []"
    by (simp add: filtered_data_filter empty_selection_def)
  show ?thesis
    using m f empty_selection_renders [OF m f] by (simp add: empty_selection_def)
qed

text \<open>
  Claim C8. Running the script again in the same session with the same selection
  yields the same page, table for table, whatever the file holds by then; more
  generally two runs that load the same dataset and get the same selection produce
  identical results, whatever their caches were. Every stage is a function of the
  dataset and the selection alone.
\<close>

theorem rerun_identical:
  "snd (run_script csv' sel (fst (run_script csv sel cache))) = snd (run_script csv sel cache)
   \<and> (fst (load_data csv1 c1) = fst (load_data csv2 c2) \<longrightarrow>
        snd (run_script csv1 sel c1) = snd (run_script csv2 sel c2))"
  by (simp add: run_script_page load_data_after_run)

theorem rerun_identical_example:
  "fst (load_data chart_rows None) = fst (load_data [] (Some chart_rows))
   \<and> snd (run_script chart_rows empty_selection None)
     = snd (run_script [] empty_selection (Some chart_rows))"
  using rerun_identical [where csv' = "[]" and sel = empty_selection and csv = chart_rows
      and cache = None and ?csv1.0 = chart_rows and ?c1.0 = None and ?csv2.0 = "[]"
      and ?c2.0 = "Some chart_rows"]
  by (simp add: load_data_def)

end
